theory Spec2Isabelle
  imports Complex_Main "HOL-Library.Word"
begin

section \<open>Data model\<close>

text \<open>
  The comic-engine backend is glue around numpy, Pillow and a depth model. The embedding
  keeps the repository's own control flow and arithmetic and makes the library values
  explicit:

  \<^item> a numpy array is a record of its \<open>dtype\<close>, its two-dimensional \<open>shape\<close>
    \<open>(height, width)\<close> and its elements in row-major order;
  \<^item> a floating-point element is the rational number it denotes. Every finite float is a
    rational; arithmetic is exact, so rounding, infinities and NaN are outside the model.
    Where numpy would produce a non-finite value (a division by zero) the model says so
    with the outcome \<open>NonFinite\<close> instead of inventing a number;
  \<^item> an exception is a value of \<open>error\<close>, and a function that can raise returns
    \<open>error + 'a\<close>.
\<close>

datatype error =
    ValueError string
  | OSError string
  | RuntimeError string
  | TypeError string
  | NonFinite

datatype dtype = Float32 | Float64 | UInt8

record 'a ndarray =
  dtype :: dtype
  shape :: "nat \<times> nat"
  data :: "'a list"

type_synonym byte = "8 word"

text \<open>
  A Pillow image: its mode string, its size \<open>(width, height)\<close> and its pixel buffer, one
  byte per band and pixel (what \<open>Image.tobytes\<close> returns).
\<close>

record image =
  mode :: string
  size_wh :: "nat \<times> nat"
  pixels :: "byte list"

text \<open>
  A depth model is anything with a \<open>predict\<close> method (\<open>DepthModelPort\<close>). Calling it
  either raises or returns the raw raster.
\<close>

type_synonym depth_model = "image \<Rightarrow> error + rat ndarray"

section \<open>numpy operations used by the core\<close>

text \<open>\<open>ndarray.min()\<close> and \<open>ndarray.max()\<close> raise \<open>ValueError\<close> on a zero-size array.\<close>

definition ndarray_min :: "rat ndarray \<Rightarrow> error + rat" where
  "ndarray_min a =
     (case data a of
        [] \<Rightarrow> Inl (ValueError ''zero-size array to reduction operation minimum which has no identity'')
      | x # xs \<Rightarrow> Inr (fold min xs x))"

definition ndarray_max :: "rat ndarray \<Rightarrow> error + rat" where
  "ndarray_max a =
     (case data a of
        [] \<Rightarrow> Inl (ValueError ''zero-size array to reduction operation maximum which has no identity'')
      | x # xs \<Rightarrow> Inr (fold max xs x))"

text \<open>\<open>np.zeros_like(a, dtype=t)\<close>: the shape of \<open>a\<close>, every element zero.\<close>

definition zeros_like :: "rat ndarray \<Rightarrow> dtype \<Rightarrow> rat ndarray" where
  "zeros_like a t =
     \<lparr>dtype = t, shape = shape a, data = replicate (fst (shape a) * snd (shape a)) 0\<rparr>"

text \<open>\<open>a - s\<close> for a scalar \<open>s\<close>: element-wise, shape and dtype kept.\<close>

definition subtract_scalar :: "rat ndarray \<Rightarrow> rat \<Rightarrow> rat ndarray" where
  "subtract_scalar a s = a\<lparr>data := map (\<lambda>x. x - s) (data a)\<rparr>"

text \<open>
  \<open>a / s\<close> for a scalar \<open>s\<close>. numpy does not raise on a zero divisor: it warns and fills
  the result with infinities and NaN, which no rational denotes, hence \<open>None\<close>.
\<close>

definition divide_scalar :: "rat ndarray \<Rightarrow> rat \<Rightarrow> rat ndarray option" where
  "divide_scalar a s =
     (if s = 0 then None else Some (a\<lparr>data := map (\<lambda>x. x / s) (data a)\<rparr>))"

text \<open>\<open>a.astype(t)\<close> between float types: a new dtype, the same shape and elements.\<close>

definition astype :: "rat ndarray \<Rightarrow> dtype \<Rightarrow> rat ndarray" where
  "astype a t = a\<lparr>dtype := t\<rparr>"

section \<open>The depth use case (core/depth.py)\<close>

definition estimate_depth :: "image \<Rightarrow> depth_model \<Rightarrow> error + rat ndarray" where
  "estimate_depth img model =
     (case model img of
        Inl e \<Rightarrow> Inl e
      | Inr raw \<Rightarrow>
          (case ndarray_min raw of
             Inl e \<Rightarrow> Inl e
           | Inr min_val \<Rightarrow>
               (case ndarray_max raw of
                  Inl e \<Rightarrow> Inl e
                | Inr max_val \<Rightarrow>
                    if min_val = max_val then Inr (zeros_like raw Float32)
                    else
                      (case divide_scalar (subtract_scalar raw min_val) (max_val - min_val) of
                         None \<Rightarrow> Inl NonFinite
                       | Some normalised \<Rightarrow> Inr (astype normalised Float32)))))"

section \<open>Image encoding and decoding (core/image_utils.py)\<close>

text \<open>
  Pillow is not part of the repository. The functions the code calls are parameters:
  \<open>Image.open\<close> on a byte buffer (it reads the header and may raise), \<open>Image.load\<close> (it
  decodes the pixels and may raise on truncated data), \<open>Image.convert\<close> and
  \<open>Image.save\<close> with \<open>format="PNG"\<close> into a byte buffer.
\<close>

record pillow =
  Image_open :: "byte list \<Rightarrow> error + image"
  Image_load :: "image \<Rightarrow> error + image"
  Image_convert :: "image \<Rightarrow> string \<Rightarrow> image"
  Image_save_png :: "image \<Rightarrow> byte list"

text \<open>The band names of a mode, as Pillow's \<open>Image.getbands\<close> lists them.\<close>

definition getbands :: "string \<Rightarrow> string list" where
  "getbands m =
     (if m = ''1'' then [''1'']
      else if m = ''L'' then [''L'']
      else if m = ''P'' then [''P'']
      else if m = ''LA'' then [''L'', ''A'']
      else if m = ''RGB'' then [''R'', ''G'', ''B'']
      else if m = ''RGBA'' then [''R'', ''G'', ''B'', ''A'']
      else if m = ''CMYK'' then [''C'', ''M'', ''Y'', ''K'']
      else [m])"

text \<open>
  \<open>decode_upload\<close>: the \<open>try\<close> block covers \<open>Image.open\<close> and \<open>img.load()\<close>; whatever
  they raise is replaced by \<open>ValueError("Invalid image data")\<close>. The conversion to RGB
  is outside the \<open>try\<close> block.
\<close>

definition decode_upload :: "pillow \<Rightarrow> byte list \<Rightarrow> error + image" where
  "decode_upload pil file_bytes =
     (case Image_open pil file_bytes of
        Inl exc \<Rightarrow> Inl (ValueError ''Invalid image data'')
      | Inr img \<Rightarrow>
          (case Image_load pil img of
             Inl exc \<Rightarrow> Inl (ValueError ''Invalid image data'')
           | Inr loaded \<Rightarrow> Inr (Image_convert pil loaded ''RGB'')))"

text \<open>\<open>a * s\<close> for a scalar \<open>s\<close>, and \<open>a.clip(lo, hi)\<close>, which is
  \<open>minimum(hi, maximum(a, lo))\<close> element-wise.\<close>

definition multiply_scalar :: "rat ndarray \<Rightarrow> rat \<Rightarrow> rat ndarray" where
  "multiply_scalar a s = a\<lparr>data := map (\<lambda>x. x * s) (data a)\<rparr>"

definition clip :: "rat ndarray \<Rightarrow> rat \<Rightarrow> rat \<Rightarrow> rat ndarray" where
  "clip a lo hi = a\<lparr>data := map (\<lambda>x. min hi (max x lo)) (data a)\<rparr>"

text \<open>
  \<open>a.astype(np.uint8)\<close> on a float array is the C conversion: the fraction is dropped
  (rounding toward zero) and the integer is stored in eight bits.
\<close>

definition truncate_toward_zero :: "rat \<Rightarrow> int" where
  "truncate_toward_zero x = (if 0 \<le> x then \<lfloor>x\<rfloor> else \<lceil>x\<rceil>)"

definition astype_uint8 :: "rat ndarray \<Rightarrow> byte ndarray" where
  "astype_uint8 a =
     \<lparr>dtype = UInt8, shape = shape a,
      data = map (\<lambda>x. word_of_int (truncate_toward_zero x)) (data a)\<rparr>"

text \<open>
  \<open>Image.fromarray(a, mode=m)\<close> on a two-dimensional \<open>uint8\<close> array of shape
  \<open>(height, width)\<close>: an image of size \<open>(width, height)\<close> over the same buffer.
\<close>

definition Image_fromarray :: "byte ndarray \<Rightarrow> string \<Rightarrow> image" where
  "Image_fromarray a m =
     \<lparr>mode = m, size_wh = (snd (shape a), fst (shape a)), pixels = data a\<rparr>"

definition depth_to_uint8 :: "rat ndarray \<Rightarrow> byte ndarray" where
  "depth_to_uint8 depth_array = astype_uint8 (clip (multiply_scalar depth_array 255) 0 255)"

definition depth_to_png :: "pillow \<Rightarrow> rat ndarray \<Rightarrow> byte list" where
  "depth_to_png pil depth_array =
     Image_save_png pil (Image_fromarray (depth_to_uint8 depth_array) ''L'')"

text \<open>The spec's wording of a pixel: \<open>floor(value \<times> 255)\<close> clamped to \<open>[0, 255]\<close>.\<close>

definition pixel_value :: "rat \<Rightarrow> int" where
  "pixel_value v = max 0 (min 255 \<lfloor>v * 255\<rfloor>)"

text \<open>
  The way back, as the repository's test \<open>test_roundtrip_approximate\<close> does it:
  \<open>np.array(Image.open(BytesIO(png)), dtype=np.float32) / 255.0\<close>. Converting the image
  to an array loads it.
\<close>

definition array_of_image :: "image \<Rightarrow> rat ndarray" where
  "array_of_image img =
     \<lparr>dtype = Float32, shape = (snd (size_wh img), fst (size_wh img)),
      data = map (\<lambda>b. of_nat (unat b)) (pixels img)\<rparr>"

definition recovered :: "pillow \<Rightarrow> byte list \<Rightarrow> error + rat ndarray" where
  "recovered pil png_bytes =
     (case Image_open pil png_bytes of
        Inl exc \<Rightarrow> Inl exc
      | Inr img \<Rightarrow>
          (case Image_load pil img of
             Inl exc \<Rightarrow> Inl exc
           | Inr loaded \<Rightarrow>
               (case divide_scalar (array_of_image loaded) 255 of
                  None \<Rightarrow> Inl NonFinite
                | Some r \<Rightarrow> Inr r)))"

section \<open>The HTTP adapter (app.py)\<close>

text \<open>Python's \<open>str\<close> on a non-negative integer: its decimal digits.\<close>

function str_nat :: "nat \<Rightarrow> string" where
  "str_nat n =
     (if n < 10 then [''0123456789'' ! n]
      else str_nat (n div 10) @ [''0123456789'' ! (n mod 10)])"
  by pat_completeness auto
termination
  by (relation "measure id") auto

declare str_nat.simps [simp del]



datatype json = JString string | JObject "(string \<times> json) list"

datatype content = Bytes "byte list" | Json json | Text string

record response =
  status_code :: nat
  media_type :: string
  headers :: "(string \<times> string) list"
  body :: content

text \<open>
  What the handler does: it returns a \<open>Response\<close>, raises an \<open>HTTPException\<close>, or lets
  an exception escape.
\<close>

datatype outcome =
    Return response
  | HTTPException nat string
  | Unhandled error

text \<open>
  The route \<open>POST /api/depth\<close>. \<open>raw\<close> is the uploaded file's content; \<open>model\<close> is the
  module's \<open>_model\<close>. Only \<open>decode_upload\<close> is inside the \<open>try\<close>, and only
  \<open>ValueError\<close> is caught. \<open>Response\<close> is built with the default status 200.
\<close>

definition depth :: "pillow \<Rightarrow> depth_model \<Rightarrow> byte list \<Rightarrow> outcome" where
  "depth pil model raw =
     (case decode_upload pil raw of
        Inl (ValueError e) \<Rightarrow> HTTPException 400 e
      | Inl exc \<Rightarrow> Unhandled exc
      | Inr img \<Rightarrow>
          (case estimate_depth img model of
             Inl exc \<Rightarrow> Unhandled exc
           | Inr depth_map \<Rightarrow>
               Return
                 \<lparr>status_code = 200, media_type = ''image/png'',
                  headers =
                    [(''X-Depth-Width'', str_nat (snd (shape depth_map))),
                     (''X-Depth-Height'', str_nat (fst (shape depth_map)))],
                  body = Bytes (depth_to_png pil depth_map)\<rparr>))"


section \<open>The Depth Anything adapter (adapters/depth_anything.py)\<close>

datatype torch_device = MPS | CUDA | CPU

text \<open>
  \<open>_detect_device\<close> reads \<open>torch.backends.mps.is_available()\<close> and
  \<open>torch.cuda.is_available()\<close>; the two answers are its arguments here.
\<close>

definition detect_device :: "bool \<Rightarrow> bool \<Rightarrow> torch_device" where
  "detect_device mps_available cuda_available =
     (if mps_available then MPS
      else if cuda_available then CUDA
      else CPU)"

text \<open>
  The spec's wording of the same choice: a fixed order of candidates, each with an
  availability check, the first available one wins. The general-purpose processor is
  always available.
\<close>

definition preference_order :: "torch_device list" where
  "preference_order = [MPS, CUDA, CPU]"

fun available :: "bool \<Rightarrow> bool \<Rightarrow> torch_device \<Rightarrow> bool" where
  "available mps_available cuda_available MPS = mps_available"
| "available mps_available cuda_available CUDA = cuda_available"
| "available mps_available cuda_available CPU = True"

definition first_available :: "bool \<Rightarrow> bool \<Rightarrow> torch_device option" where
  "first_available mps_available cuda_available =
     find (available mps_available cuda_available) preference_order"

text \<open>
  The adapter's fields \<open>_processor\<close>, \<open>_model\<close> and \<open>_device\<close>; \<open>None\<close> until loaded.
  The types of a loaded processor and a loaded network are left open.
\<close>

record ('p, 'm) adapter =
  self_processor :: "'p option"
  self_model :: "'m option"
  self_device :: "torch_device option"

text \<open>
  What the adapter asks of its environment: the two availability flags, the variable
  \<open>HF_HOME\<close>, the directory of the module's file, the two \<open>from_pretrained\<close> loaders
  (model id and cache directory in, a loaded object or an exception out), \<open>.to(device)\<close>
  and \<open>.eval()\<close> on the network, and the inference itself (preprocessing, forward pass,
  bicubic resize to the image's size, conversion to numpy).
\<close>

record ('p, 'm) runtime =
  mps_is_available :: bool
  cuda_is_available :: bool
  HF_HOME :: "string option"
  module_dirname :: string
  processor_from_pretrained :: "string \<Rightarrow> string \<Rightarrow> error + 'p"
  model_from_pretrained :: "string \<Rightarrow> string \<Rightarrow> error + 'm"
  network_to :: "'m \<Rightarrow> torch_device \<Rightarrow> 'm"
  network_eval :: "'m \<Rightarrow> 'm"
  run_inference :: "'p \<Rightarrow> 'm \<Rightarrow> torch_device \<Rightarrow> image \<Rightarrow> error + rat ndarray"

definition MODEL_ID :: string where
  "MODEL_ID = ''depth-anything/Depth-Anything-V2-Small-hf''"

text \<open>\<open>os.path.join\<close> on POSIX paths, two components at a time.\<close>

definition path_join :: "string \<Rightarrow> string \<Rightarrow> string" where
  "path_join a b =
     (if b \<noteq> [] \<and> hd b = CHR ''/'' then b
      else if a = [] \<or> last a = CHR ''/'' then a @ b
      else a @ ''/'' @ b)"

definition adapter_init :: "('p, 'm) adapter" where
  "adapter_init = \<lparr>self_processor = None, self_model = None, self_device = None\<rparr>"

text \<open>
  \<open>cache_dir\<close> is the local variable of \<open>_load\<close>: \<open>HF_HOME\<close> when set, else
  \<open>models\<close> two levels above the module. \<open>_load\<close> returns nothing; it changes the
  adapter and may raise. The result is the
  exception, if any, and the adapter as the call leaves it: an assignment made before a
  later step raises stays made.
\<close>

definition cache_dir :: "('p, 'm) runtime \<Rightarrow> string" where
  "cache_dir rt =
     (case HF_HOME rt of
        Some d \<Rightarrow> d
      | None \<Rightarrow> path_join (path_join (path_join (module_dirname rt) ''..'') ''..'') ''models'')"

definition load :: "('p, 'm) runtime \<Rightarrow> ('p, 'm) adapter \<Rightarrow> error option \<times> ('p, 'm) adapter" where
  "load rt self =
     (if self_model self \<noteq> None then (None, self)
      else
        let dev = detect_device (mps_is_available rt) (cuda_is_available rt);
            self1 = self\<lparr>self_device := Some dev\<rparr>
        in
          (case processor_from_pretrained rt MODEL_ID (cache_dir rt) of
             Inl exc \<Rightarrow> (Some exc, self1)
           | Inr p \<Rightarrow>
               let self2 = self1\<lparr>self_processor := Some p\<rparr> in
                 (case model_from_pretrained rt MODEL_ID (cache_dir rt) of
                    Inl exc \<Rightarrow> (Some exc, self2)
                  | Inr m \<Rightarrow>
                      (None, self2\<lparr>self_model := Some (network_eval rt (network_to rt m dev))\<rparr>))))"

text \<open>
  \<open>predict\<close> loads first and then runs the network. Calling a field that is still
  \<open>None\<close> is a \<open>TypeError\<close> in Python. \<open>.to\<close> and \<open>.eval\<close> are taken not to raise.
\<close>

definition predict ::
  "('p, 'm) runtime \<Rightarrow> ('p, 'm) adapter \<Rightarrow> image \<Rightarrow> (error + rat ndarray) \<times> ('p, 'm) adapter" where
  "predict rt self img =
     (case load rt self of
        (Some exc, self') \<Rightarrow> (Inl exc, self')
      | (None, self') \<Rightarrow>
          (case (self_processor self', self_model self', self_device self') of
             (Some p, Some m, Some dev) \<Rightarrow> (run_inference rt p m dev img, self')
           | _ \<Rightarrow> (Inl (TypeError ''NoneType object is not callable''), self')))"


section \<open>Concrete inputs\<close>

text \<open>
  The models and arrays of the repository's tests, cut down to a few pixels, and
  stand-ins for the libraries, so that every function above can be run on a concrete
  input.
\<close>

text \<open>
  \<open>KnownModel\<close> of \<open>test_normalisation_with_known_values\<close> returns the raster
  \<open>[[2, 4], [6, 8]]\<close> for a \<open>2 \<times> 2\<close> image.
\<close>

definition test_image :: image where
  "test_image = \<lparr>mode = ''RGB'', size_wh = (2, 2), pixels = replicate 12 0\<rparr>"



text \<open>
  \<open>UniformModel\<close> of \<open>test_uniform_output_does_not_crash\<close> returns the constant 5.
\<close>

definition uniform_raster :: "rat ndarray" where
  "uniform_raster = \<lparr>dtype = Float32, shape = (2, 2), data = [5, 5, 5, 5]\<rparr>"

definition UniformModel :: depth_model where
  "UniformModel img = Inr uniform_raster"

text \<open>
  A runtime for concrete runs: processors and networks are named by strings, and a
  loaded network records the device it was moved to and whether \<open>eval\<close> was called.
\<close>

record network =
  weights :: string
  on_device :: "torch_device option"
  eval_mode :: bool

definition gradient_raster :: "rat ndarray" where
  "gradient_raster = \<lparr>dtype = Float32, shape = (2, 2), data = [0, 0, 1, 1]\<rparr>"

definition cpu_runtime :: "(string, network) runtime" where
  "cpu_runtime =
     \<lparr>mps_is_available = False, cuda_is_available = False, HF_HOME = None,
      module_dirname = ''/srv/backend/comic_engine/adapters'',
      processor_from_pretrained = (\<lambda>model_id cache_dir. Inr (model_id @ '' processor'')),
      model_from_pretrained =
        (\<lambda>model_id cache_dir. Inr \<lparr>weights = model_id, on_device = None, eval_mode = False\<rparr>),
      network_to = (\<lambda>m dev. m\<lparr>on_device := Some dev\<rparr>),
      network_eval = (\<lambda>m. m\<lparr>eval_mode := True\<rparr>),
      run_inference = (\<lambda>p m dev img. Inr gradient_raster)\<rparr>"


definition cpu_loaded :: "(string, network) adapter" where
  "cpu_loaded =
     \<lparr>self_processor = Some ''depth-anything/Depth-Anything-V2-Small-hf processor'',
      self_model = Some \<lparr>weights = ''depth-anything/Depth-Anything-V2-Small-hf'',
                         on_device = Some CPU, eval_mode = True\<rparr>,
      self_device = Some CPU\<rparr>"

text \<open>
  A stand-in for Pillow on concrete inputs: a file is the number of bands, the width and
  the height, one byte each, and then the pixel buffer. \<open>open\<close> reads the three header
  bytes, \<open>load\<close> checks that the buffer is complete, \<open>convert\<close> to RGB repeats a grey
  value three times and drops the fourth band of RGBA.
\<close>

fun drop_alpha :: "byte list \<Rightarrow> byte list" where
  "drop_alpha (r # g # b # a # rest) = r # g # b # drop_alpha rest"
| "drop_alpha rest = []"

definition toy_open :: "byte list \<Rightarrow> error + image" where
  "toy_open file =
     (case file of
        bands # w # h # buffer \<Rightarrow>
          if bands = 1 then Inr \<lparr>mode = ''L'', size_wh = (unat w, unat h), pixels = buffer\<rparr>
          else if bands = 3 then Inr \<lparr>mode = ''RGB'', size_wh = (unat w, unat h), pixels = buffer\<rparr>
          else if bands = 4 then Inr \<lparr>mode = ''RGBA'', size_wh = (unat w, unat h), pixels = buffer\<rparr>
          else Inl (OSError ''cannot identify image file'')
      | _ \<Rightarrow> Inl (OSError ''cannot identify image file''))"

definition toy_load :: "image \<Rightarrow> error + image" where
  "toy_load img =
     (if length (pixels img) = length (getbands (mode img)) * fst (size_wh img) * snd (size_wh img)
      then Inr img
      else Inl (OSError ''image file is truncated''))"

definition toy_convert :: "image \<Rightarrow> string \<Rightarrow> image" where
  "toy_convert img m =
     \<lparr>mode = m, size_wh = size_wh img,
      pixels =
        (if mode img = ''L'' \<and> m = ''RGB'' then concat (map (\<lambda>b. [b, b, b]) (pixels img))
         else if mode img = ''RGBA'' \<and> m = ''RGB'' then drop_alpha (pixels img)
         else pixels img)\<rparr>"

definition toy_save :: "image \<Rightarrow> byte list" where
  "toy_save img =
     [of_nat (length (getbands (mode img))), of_nat (fst (size_wh img)), of_nat (snd (size_wh img))]
       @ pixels img"

definition toy_pillow :: pillow where
  "toy_pillow =
     \<lparr>Image_open = toy_open, Image_load = toy_load, Image_convert = toy_convert,
      Image_save_png = toy_save\<rparr>"


definition unit_depth_array :: "rat ndarray" where
  "unit_depth_array = \<lparr>dtype = Float32, shape = (2, 2), data = [0, 1 / 4, 1 / 2, 1]\<rparr>"

text \<open>
  Uploads in the stand-in format: an RGBA image one pixel wide and two high, the same
  file cut short, and the bytes of \<open>not-an-image\<close>.
\<close>

definition rgba_upload :: "byte list" where
  "rgba_upload = [4, 1, 2, 10, 20, 30, 128, 40, 50, 60, 255]"

definition truncated_upload :: "byte list" where
  "truncated_upload = [4, 1, 2, 10, 20, 30, 128, 40]"

definition not_an_image :: "byte list" where
  "not_an_image = [110, 111, 116, 45, 97, 110, 45, 105, 109, 97, 103, 101]"






section \<open>Facts about minimum and maximum\<close>

lemma fold_min_Min: "fold min xs (x::rat) = Min (set (x # xs))"
  by (simp only: Min.set_eq_fold)

lemma fold_max_Max: "fold max xs (x::rat) = Max (set (x # xs))"
  by (simp only: Max.set_eq_fold)

lemma ndarray_min_Inr:
  "data a \<noteq> [] \<Longrightarrow> ndarray_min a = Inr (Min (set (data a)))"
  by (cases "data a") (simp_all add: ndarray_min_def fold_min_Min del: Min.set_eq_fold)

lemma ndarray_max_Inr:
  "data a \<noteq> [] \<Longrightarrow> ndarray_max a = Inr (Max (set (data a)))"
  by (cases "data a") (simp_all add: ndarray_max_def fold_max_Max del: Max.set_eq_fold)

lemma ndarray_min_nonempty: "ndarray_min a = Inr m \<Longrightarrow> data a \<noteq> []"
  by (cases "data a") (simp_all add: ndarray_min_def)

lemma ndarray_max_nonempty: "ndarray_max a = Inr m \<Longrightarrow> data a \<noteq> []"
  by (cases "data a") (simp_all add: ndarray_max_def)



lemma ndarray_min_mem:
  assumes "ndarray_min a = Inr lo"
  shows "lo \<in> set (data a)"
proof -
  have ne: "data a \<noteq> []" using assms by (rule ndarray_min_nonempty)
  then have "lo = Min (set (data a))" using assms by (simp add: ndarray_min_Inr)
  then show ?thesis using ne by (simp add: Min_in)
qed

lemma ndarray_max_mem:
  assumes "ndarray_max a = Inr hi"
  shows "hi \<in> set (data a)"
proof -
  have ne: "data a \<noteq> []" using assms by (rule ndarray_max_nonempty)
  then have "hi = Max (set (data a))" using assms by (simp add: ndarray_max_Inr)
  then show ?thesis using ne by (simp add: Max_in)
qed



section \<open>Normalisation\<close>


lemma estimate_depth_degenerate_branch:
  assumes "model img = Inr raw" and "ndarray_min raw = Inr m" and "ndarray_max raw = Inr m"
  shows "estimate_depth img model = Inr (zeros_like raw Float32)"
  using assms by (simp add: estimate_depth_def)





lemma constant_raster_min_eq_max:
  assumes "data raw \<noteq> []" and "\<forall>x \<in> set (data raw). \<forall>y \<in> set (data raw). x = y"
  shows "\<exists>m. ndarray_min raw = Inr m \<and> ndarray_max raw = Inr m \<and> (\<forall>x \<in> set (data raw). x = m)"
proof -
  let ?m = "Min (set (data raw))"
  have mn: "ndarray_min raw = Inr ?m" using assms(1) by (rule ndarray_min_Inr)
  have mx: "ndarray_max raw = Inr (Max (set (data raw)))" using assms(1) by (rule ndarray_max_Inr)
  have "?m \<in> set (data raw)" using mn by (rule ndarray_min_mem)
  moreover have "Max (set (data raw)) \<in> set (data raw)" using mx by (rule ndarray_max_mem)
  ultimately have eq: "Max (set (data raw)) = ?m" and all: "\<forall>x \<in> set (data raw). x = ?m"
    using assms(2) by blast+
  show ?thesis using mn mx eq all by auto
qed

lemma estimate_depth_never_divides_by_zero:
  assumes "model img = Inr raw"
  shows "estimate_depth img model \<noteq> Inl NonFinite"
  using assms
  by (auto simp: estimate_depth_def divide_scalar_def ndarray_min_def ndarray_max_def
      split: sum.splits option.splits list.splits if_splits)

text \<open>
  Claim C2. When every element of the model's raster equals every other, the minimum
  equals the maximum and \<open>estimate_depth\<close> returns the all-zero float32 array of the
  raster's shape. The division is not evaluated: the result is never the outcome that
  stands for a division by zero.
\<close>

theorem estimate_depth_constant_raster:
  assumes "model img = Inr raw"
    and "data raw \<noteq> []"
    and "\<forall>x \<in> set (data raw). \<forall>y \<in> set (data raw). x = y"
  shows "\<exists>m. ndarray_min raw = Inr m \<and> ndarray_max raw = Inr m
           \<and> estimate_depth img model =
               Inr \<lparr>dtype = Float32, shape = shape raw,
                    data = replicate (fst (shape raw) * snd (shape raw)) 0\<rparr>
           \<and> estimate_depth img model \<noteq> Inl NonFinite"
proof -
  from constant_raster_min_eq_max [OF assms(2,3)]
  obtain m where mn: "ndarray_min raw = Inr m" and mx: "ndarray_max raw = Inr m" by blast
  have "estimate_depth img model = Inr (zeros_like raw Float32)"
    using assms(1) mn mx by (rule estimate_depth_degenerate_branch)
  then show ?thesis using mn mx by (simp add: zeros_like_def)
qed

theorem estimate_depth_constant_raster_witness:
  "ndarray_min uniform_raster = Inr 5 \<and> ndarray_max uniform_raster = Inr 5
     \<and> estimate_depth test_image UniformModel =
         Inr \<lparr>dtype = Float32, shape = (2, 2), data = [0, 0, 0, 0]\<rparr>"
proof -
  have m: "UniformModel test_image = Inr uniform_raster" by (simp add: UniformModel_def)
  have ne: "data uniform_raster \<noteq> []" by (simp add: uniform_raster_def)
  have c: "\<forall>x \<in> set (data uniform_raster). \<forall>y \<in> set (data uniform_raster). x = y"
    by (simp add: uniform_raster_def)
  from estimate_depth_constant_raster
    [where model = UniformModel and img = test_image, OF m ne c]
  obtain k where "ndarray_min uniform_raster = Inr k" and "ndarray_max uniform_raster = Inr k"
    and "estimate_depth test_image UniformModel =
       Inr \<lparr>dtype = Float32, shape = shape uniform_raster,
            data = replicate (fst (shape uniform_raster) * snd (shape uniform_raster)) 0\<rparr>"
    by blast
  then show ?thesis by (simp add: uniform_raster_def ndarray_min_def numeral_eq_Suc)
qed



section \<open>Device selection and lazy loading\<close>

text \<open>
  Claim C8. Device selection returns the first available candidate of the fixed order
  MPS, CUDA, CPU, there are exactly these three candidates, and the result is a function
  of the two availability flags: MPS exactly when MPS is available, CUDA exactly when MPS
  is not and CUDA is, CPU exactly when neither is.
\<close>

theorem detect_device_first_available:
  "first_available mps_available cuda_available = Some (detect_device mps_available cuda_available)
     \<and> length preference_order = 3 \<and> distinct preference_order
     \<and> detect_device mps_available cuda_available \<in> set preference_order
     \<and> (detect_device mps_available cuda_available = MPS) = mps_available
     \<and> (detect_device mps_available cuda_available = CUDA) = (\<not> mps_available \<and> cuda_available)
     \<and> (detect_device mps_available cuda_available = CPU) = (\<not> mps_available \<and> \<not> cuda_available)"
  by (simp add: first_available_def preference_order_def detect_device_def)

theorem detect_device_first_available_witness:
  "detect_device False False = CPU \<and> detect_device False True = CUDA
     \<and> detect_device True True = MPS \<and> detect_device True False = MPS
     \<and> first_available False True = Some CUDA"
  using detect_device_first_available [of False True] detect_device_first_available [of False False]
    detect_device_first_available [of True True] detect_device_first_available [of True False]
  by simp

lemma load_loaded_noop:
  assumes "self_model self \<noteq> None"
  shows "load rt self = (None, self)"
  using assms by (simp add: load_def)

lemma load_success_loaded:
  assumes "load rt self = (None, self')"
  shows "self_model self' \<noteq> None"
  using assms
  by (auto simp: load_def Let_def split: if_splits sum.splits)

lemma predict_state: "snd (predict rt self img) = snd (load rt self)"
  by (auto simp: predict_def split: prod.splits option.splits)

lemma load_repeated_noop:
  assumes "self_model self \<noteq> None"
  shows "((\<lambda>s. snd (load rt s)) ^^ n) self = self"
  using assms by (induction n) (simp_all add: load_loaded_noop)

lemma load_first:
  assumes "processor_from_pretrained rt MODEL_ID (cache_dir rt) = Inr p"
    and "model_from_pretrained rt MODEL_ID (cache_dir rt) = Inr m"
  shows "load rt adapter_init =
    (None,
     \<lparr>self_processor = Some p,
      self_model = Some (network_eval rt (network_to rt m
                     (detect_device (mps_is_available rt) (cuda_is_available rt)))),
      self_device = Some (detect_device (mps_is_available rt) (cuda_is_available rt))\<rparr>)"
  using assms by (simp add: load_def adapter_init_def Let_def)

text \<open>
  Claim C9. Constructing the adapter loads nothing; the first \<open>predict\<close> on a fresh
  adapter loads processor, network and device (when both loaders succeed); and on any
  adapter whose network is loaded, \<open>_load\<close> returns at once and leaves the three
  fields as they are, also inside \<open>predict\<close> and however often it is repeated.
\<close>

theorem load_lazy_idempotent:
  assumes "processor_from_pretrained rt MODEL_ID (cache_dir rt) = Inr p"
    and "model_from_pretrained rt MODEL_ID (cache_dir rt) = Inr m"
    and "loaded = \<lparr>self_processor = Some p,
           self_model = Some (network_eval rt (network_to rt m
                          (detect_device (mps_is_available rt) (cuda_is_available rt)))),
           self_device = Some (detect_device (mps_is_available rt) (cuda_is_available rt))\<rparr>"
  shows "self_model (adapter_init :: ('p, 'm) adapter) = None
    \<and> snd (predict rt adapter_init img) = loaded
    \<and> load rt loaded = (None, loaded)
    \<and> snd (predict rt loaded img') = loaded
    \<and> (\<forall>self. self_model self \<noteq> None \<longrightarrow>
          load rt self = (None, self) \<and> snd (predict rt self img') = self
          \<and> (\<forall>n. ((\<lambda>s. snd (load rt s)) ^^ n) self = self))"
proof -
  have first: "load rt adapter_init = (None, loaded)"
    unfolding assms(3) using assms(1,2) by (rule load_first)
  have l: "self_model loaded \<noteq> None" using first by (rule load_success_loaded)
  have "snd (predict rt adapter_init img) = loaded"
    using first by (simp add: predict_state)
  moreover have "load rt loaded = (None, loaded)" using l by (rule load_loaded_noop)
  moreover have "snd (predict rt loaded img') = loaded"
    using l by (simp add: predict_state load_loaded_noop)
  moreover have "self_model (adapter_init :: ('p, 'm) adapter) = None"
    by (simp add: adapter_init_def)
  ultimately show ?thesis
    by (simp add: predict_state load_loaded_noop load_repeated_noop)
qed

lemma cpu_runtime_cache_dir:
  "cache_dir cpu_runtime = ''/srv/backend/comic_engine/adapters/../../models''"
  by (simp add: cache_dir_def cpu_runtime_def path_join_def)

theorem load_lazy_idempotent_witness:
  "self_model (adapter_init :: (string, network) adapter) = None
    \<and> snd (predict cpu_runtime adapter_init test_image) = cpu_loaded
    \<and> load cpu_runtime cpu_loaded = (None, cpu_loaded)
    \<and> snd (predict cpu_runtime cpu_loaded test_image) = cpu_loaded"
proof -
  have p: "processor_from_pretrained cpu_runtime MODEL_ID (cache_dir cpu_runtime)
             = Inr ''depth-anything/Depth-Anything-V2-Small-hf processor''"
    by (simp add: cpu_runtime_def MODEL_ID_def)
  have m: "model_from_pretrained cpu_runtime MODEL_ID (cache_dir cpu_runtime)
             = Inr \<lparr>weights = ''depth-anything/Depth-Anything-V2-Small-hf'',
                    on_device = None, eval_mode = False\<rparr>"
    by (simp add: cpu_runtime_def MODEL_ID_def)
  have l: "cpu_loaded = \<lparr>self_processor = Some ''depth-anything/Depth-Anything-V2-Small-hf processor'',
           self_model = Some (network_eval cpu_runtime (network_to cpu_runtime
              \<lparr>weights = ''depth-anything/Depth-Anything-V2-Small-hf'',
                    on_device = None, eval_mode = False\<rparr>
              (detect_device (mps_is_available cpu_runtime) (cuda_is_available cpu_runtime)))),
           self_device = Some (detect_device (mps_is_available cpu_runtime) (cuda_is_available cpu_runtime))\<rparr>"
    by (simp add: cpu_loaded_def cpu_runtime_def detect_device_def)
  from load_lazy_idempotent [OF p m l, of test_image test_image]
  show ?thesis by blast
qed

section \<open>Encoding and decoding\<close>

lemma floor_numeral_quotient:
  "\<lfloor>numeral a / numeral b :: rat\<rfloor> = numeral a div numeral b"
  using floor_divide_of_int_eq [of "numeral a" "numeral b", where ?'a = rat] by simp


lemma truncate_clip:
  "truncate_toward_zero (min 255 (max x 0)) = max 0 (min 255 \<lfloor>x\<rfloor>)"
proof -
  consider "x < 0" | "0 \<le> x" "x \<le> 255" | "255 < x" by linarith
  then show ?thesis
  proof cases
    case 1
    then have "\<lfloor>x\<rfloor> < 0" by (simp add: floor_less_iff)
    then show ?thesis using 1 by (simp add: truncate_toward_zero_def)
  next
    case 2
    then have "0 \<le> \<lfloor>x\<rfloor>" and "\<lfloor>x\<rfloor> \<le> 255" by (simp_all add: floor_le_iff)
    then show ?thesis using 2 by (simp add: truncate_toward_zero_def max_def min_def)
  next
    case 3
    then have "255 \<le> \<lfloor>x\<rfloor>" by (simp add: le_floor_iff)
    then show ?thesis using 3 by (simp add: truncate_toward_zero_def)
  qed
qed

lemma pixel_value_range: "0 \<le> pixel_value v \<and> pixel_value v \<le> 255"
  by (simp add: pixel_value_def)

lemma pixel_value_unat: "unat (word_of_int (pixel_value v) :: byte) = nat (pixel_value v)"
proof -
  have "0 \<le> pixel_value v" and "pixel_value v < 2 ^ 8" using pixel_value_range [of v] by simp_all
  then show ?thesis by (simp add: unat_eq_nat_uint uint_word_of_int take_bit_int_eq_self)
qed

lemma depth_to_uint8_pixels:
  "depth_to_uint8 a =
     \<lparr>dtype = UInt8, shape = shape a, data = map (\<lambda>v. word_of_int (pixel_value v)) (data a)\<rparr>"
  by (simp add: depth_to_uint8_def astype_uint8_def clip_def multiply_scalar_def
      truncate_clip pixel_value_def comp_def)



lemma quantisation_error:
  fixes v :: rat
  assumes "0 \<le> v" and "v \<le> 1"
  shows "\<bar>of_nat (unat (word_of_int (pixel_value v) :: byte)) / 255 - v\<bar> \<le> 1 / 255"
proof -
  have fl: "0 \<le> \<lfloor>v * 255\<rfloor>" "\<lfloor>v * 255\<rfloor> \<le> 255"
    using assms by (simp_all add: floor_le_iff)
  then have pv: "pixel_value v = \<lfloor>v * 255\<rfloor>" by (simp add: pixel_value_def)
  have "(of_nat (unat (word_of_int (pixel_value v) :: byte)) :: rat) = of_nat (nat (pixel_value v))"
    by (simp only: pixel_value_unat)
  also have "\<dots> = of_int \<lfloor>v * 255\<rfloor>" using fl(1) by (simp add: pv)
  finally have eq: "(of_nat (unat (word_of_int (pixel_value v) :: byte)) :: rat) = of_int \<lfloor>v * 255\<rfloor>" .
  have lower: "of_int \<lfloor>v * 255\<rfloor> \<le> v * 255" by (rule of_int_floor_le)
  have upper: "v * 255 < of_int \<lfloor>v * 255\<rfloor> + 1" by (rule floor_correct [THEN conjunct2, simplified])
  show ?thesis unfolding eq using lower upper by (simp add: abs_le_iff field_simps)
qed

text \<open>
  Claim C6. For a depth map with values between 0 and 1, encoding with \<open>depth_to_png\<close>
  and reading the PNG back as floats divided by 255 gives, when the PNG codec returns the
  image it was given, an array of the same shape whose every element is within
  \<open>1/255\<close> of the original.
\<close>

theorem png_roundtrip_tolerance:
  assumes "\<forall>v \<in> set (data a). 0 \<le> v \<and> v \<le> 1"
    and "Image_open pil (depth_to_png pil a) = Inr file"
    and "Image_load pil file = Inr (Image_fromarray (depth_to_uint8 a) ''L'')"
  shows "\<exists>r. recovered pil (depth_to_png pil a) = Inr r
           \<and> shape r = shape a
           \<and> length (data r) = length (data a)
           \<and> (\<forall>i < length (data a). \<bar>data r ! i - data a ! i\<bar> \<le> 1 / 255)"
proof -
  let ?r = "\<lparr>dtype = Float32, shape = shape a,
              data = map (\<lambda>v. of_nat (unat (word_of_int (pixel_value v) :: byte)) / 255) (data a)\<rparr>"
  have rec: "recovered pil (depth_to_png pil a) = Inr ?r"
    using assms(2,3)
    by (simp add: recovered_def divide_scalar_def array_of_image_def Image_fromarray_def
        depth_to_uint8_pixels comp_def)
  have close: "\<bar>data ?r ! i - data a ! i\<bar> \<le> 1 / 255" if "i < length (data a)" for i
  proof -
    have "data a ! i \<in> set (data a)" using that by simp
    then have "0 \<le> data a ! i" and "data a ! i \<le> 1" using assms(1) by auto
    then have "\<bar>of_nat (unat (word_of_int (pixel_value (data a ! i)) :: byte)) / 255
                 - data a ! i\<bar> \<le> 1 / 255"
      by (rule quantisation_error)
    then show ?thesis using that by simp
  qed
  show ?thesis using rec close by (intro exI[of _ ?r]) simp
qed

theorem png_roundtrip_tolerance_witness:
  "recovered toy_pillow (depth_to_png toy_pillow unit_depth_array) =
     Inr \<lparr>dtype = Float32, shape = (2, 2), data = [0, 63 / 255, 127 / 255, 1]\<rparr>
   \<and> \<bar>(63 / 255 :: rat) - 1 / 4\<bar> \<le> 1 / 255 \<and> \<bar>(127 / 255 :: rat) - 1 / 2\<bar> \<le> 1 / 255"
proof -
  have png: "depth_to_png toy_pillow unit_depth_array = [1, 2, 2, 0, 63, 127, 255]"
    by (simp add: depth_to_png_def depth_to_uint8_pixels Image_fromarray_def toy_pillow_def
        toy_save_def unit_depth_array_def pixel_value_def getbands_def floor_numeral_quotient)
  have u8: "Image_fromarray (depth_to_uint8 unit_depth_array) ''L'' =
      \<lparr>mode = ''L'', size_wh = (2, 2), pixels = [0, 63, 127, 255]\<rparr>"
    by (simp add: depth_to_uint8_pixels Image_fromarray_def unit_depth_array_def pixel_value_def
        floor_numeral_quotient)
  have rng: "\<forall>v \<in> set (data unit_depth_array). 0 \<le> v \<and> v \<le> 1"
    by (simp add: unit_depth_array_def)
  have op: "Image_open toy_pillow (depth_to_png toy_pillow unit_depth_array) =
      Inr \<lparr>mode = ''L'', size_wh = (2, 2), pixels = [0, 63, 127, 255]\<rparr>"
    unfolding png by (simp add: toy_pillow_def toy_open_def)
  have ld: "Image_load toy_pillow \<lparr>mode = ''L'', size_wh = (2, 2), pixels = [0, 63, 127, 255]\<rparr> =
      Inr (Image_fromarray (depth_to_uint8 unit_depth_array) ''L'')"
    unfolding u8 by (simp add: toy_pillow_def toy_load_def getbands_def)
  from png_roundtrip_tolerance [OF rng op ld]
  obtain r where r: "recovered toy_pillow (depth_to_png toy_pillow unit_depth_array) = Inr r"
    and tol: "\<forall>i < length (data unit_depth_array). \<bar>data r ! i - data unit_depth_array ! i\<bar> \<le> 1 / 255"
    by blast
  have val: "recovered toy_pillow [1, 2, 2, 0, 63, 127, 255] =
      Inr \<lparr>dtype = Float32, shape = (2, 2), data = [0, 63 / 255, 127 / 255, 1]\<rparr>"
    by (simp add: recovered_def toy_pillow_def toy_open_def toy_load_def getbands_def
        array_of_image_def divide_scalar_def)
  then have req: "r = \<lparr>dtype = Float32, shape = (2, 2), data = [0, 63 / 255, 127 / 255, 1]\<rparr>"
    using r unfolding png by simp
  have "\<bar>data r ! 1 - data unit_depth_array ! 1\<bar> \<le> 1 / 255"
    using tol [rule_format, of 1] by (simp add: unit_depth_array_def)
  moreover have "\<bar>data r ! 2 - data unit_depth_array ! 2\<bar> \<le> 1 / 255"
    using tol [rule_format, of 2] by (simp add: unit_depth_array_def)
  ultimately show ?thesis using r unfolding req by (simp add: unit_depth_array_def)
qed

text \<open>
  Claim C5. \<open>decode_upload\<close> raises the error with message \<open>Invalid image data\<close>
  exactly when the bytes cannot be opened and fully loaded, and raises nothing else; when
  they can, it returns Pillow's conversion of the loaded image to RGB, which (Pillow's
  \<open>convert\<close> sets the mode and keeps the size) has mode RGB, the size of the loaded image
  and the three bands R, G and B, so no alpha band.
\<close>

theorem decode_upload_error_iff:
  assumes "\<And>img m. mode (Image_convert pil img m) = m"
    and "\<And>img m. size_wh (Image_convert pil img m) = size_wh img"
  shows "(decode_upload pil file_bytes = Inl (ValueError ''Invalid image data''))
           = (\<not> (\<exists>file img. Image_open pil file_bytes = Inr file \<and> Image_load pil file = Inr img))
    \<and> (\<forall>e. decode_upload pil file_bytes = Inl e \<longrightarrow> e = ValueError ''Invalid image data'')
    \<and> (\<forall>file img. Image_open pil file_bytes = Inr file \<and> Image_load pil file = Inr img \<longrightarrow>
          (\<exists>out. decode_upload pil file_bytes = Inr out
             \<and> out = Image_convert pil img ''RGB''
             \<and> mode out = ''RGB''
             \<and> size_wh out = size_wh img
             \<and> getbands (mode out) = [''R'', ''G'', ''B'']))"
  using assms
  by (auto simp: decode_upload_def getbands_def split: sum.splits)

theorem decode_upload_error_iff_witness:
  "decode_upload toy_pillow rgba_upload =
     Inr \<lparr>mode = ''RGB'', size_wh = (1, 2), pixels = [10, 20, 30, 40, 50, 60]\<rparr>
   \<and> decode_upload toy_pillow truncated_upload = Inl (ValueError ''Invalid image data'')
   \<and> decode_upload toy_pillow not_an_image = Inl (ValueError ''Invalid image data'')"
proof -
  have m: "\<And>img m. mode (Image_convert toy_pillow img m) = m"
    by (simp add: toy_pillow_def toy_convert_def)
  have s: "\<And>img m. size_wh (Image_convert toy_pillow img m) = size_wh img"
    by (simp add: toy_pillow_def toy_convert_def)
  let ?loaded = "\<lparr>mode = ''RGBA'', size_wh = (1, 2), pixels = [10, 20, 30, 128, 40, 50, 60, 255]\<rparr>"
  have op: "Image_open toy_pillow rgba_upload = Inr ?loaded"
    by (simp add: toy_pillow_def toy_open_def rgba_upload_def)
  have ld: "Image_load toy_pillow ?loaded = Inr ?loaded"
    by (simp add: toy_pillow_def toy_load_def getbands_def)
  have t: "\<not> (\<exists>file img. Image_open toy_pillow truncated_upload = Inr file
                \<and> Image_load toy_pillow file = Inr img)"
    by (simp add: toy_pillow_def toy_open_def toy_load_def getbands_def truncated_upload_def)
  have n: "\<not> (\<exists>file img. Image_open toy_pillow not_an_image = Inr file
                \<and> Image_load toy_pillow file = Inr img)"
    by (simp add: toy_pillow_def toy_open_def not_an_image_def)
  have "decode_upload toy_pillow rgba_upload = Inr (Image_convert toy_pillow ?loaded ''RGB'')"
    using decode_upload_error_iff [OF m s, of rgba_upload] op ld by auto
  moreover have "decode_upload toy_pillow truncated_upload = Inl (ValueError ''Invalid image data'')"
    using decode_upload_error_iff [OF m s, of truncated_upload] t by blast
  moreover have "decode_upload toy_pillow not_an_image = Inl (ValueError ''Invalid image data'')"
    using decode_upload_error_iff [OF m s, of not_an_image] n by blast
  ultimately show ?thesis by (simp add: toy_pillow_def toy_convert_def)
qed

section \<open>The depth route\<close>



lemma str_nat_examples: "str_nat 80 = ''80'' \<and> str_nat 60 = ''60'' \<and> str_nat 0 = ''0''"
  by (simp add: str_nat.simps)






lemma estimate_depth_zero_size:
  assumes "model img = Inr raw" and "data raw = []"
  shows "\<exists>msg. estimate_depth img model = Inl (ValueError msg)"
  using assms by (simp add: estimate_depth_def ndarray_min_def)













end
